theory Spec2Isabelle
  imports Main "HOL-Library.AList"
begin

section \<open>The inventory system: values, state and operations\<close>

text \<open>
  The program keeps one module-level dictionary \<open>stock_data\<close>, prints to standard output
  and reads and writes JSON files. The model threads these three through every operation
  as a record. An exception is a value beside the state, because a Python exception
  leaves the mutations made before it in place.

  Python values are represented as far as the program's own operations and a JSON file of
  scalar members produce them: \<open>None\<close>, \<open>bool\<close>, \<open>int\<close> (unbounded) and \<open>str\<close>.
  Python's \<open>float\<close> is not represented (its rounding arithmetic is not modelled), and
  neither are lists and nested dictionaries. All these values are hashable. In this
  universe every key that \<open>add_item\<close> or \<open>load_data\<close> can store is a \<open>str\<close>, so the
  dictionary is an association list from strings to values, in insertion order.
  The default arguments of the source (\<open>qty=0\<close>, \<open>file="inventory.json"\<close>,
  \<open>threshold=5\<close>) are written out by the caller.
\<close>

datatype pyval = PNone | PBool bool | PInt int | PStr string

datatype exn = TypeError | ValueError | KeyError | JSONDecodeError

subsection \<open>Python's operators on these values\<close>

text \<open>\<open>isinstance(v, str)\<close> and \<open>isinstance(v, (int, float))\<close>; \<open>bool\<close> is a subclass
  of \<open>int\<close>, so \<open>True\<close> and \<open>False\<close> pass the second test.\<close>

fun is_str :: "pyval \<Rightarrow> bool" where
  "is_str (PStr s) = True"
| "is_str v = False"

fun num_of :: "pyval \<Rightarrow> int option" where
  "num_of (PInt n) = Some n"
| "num_of (PBool b) = Some (if b then 1 else 0)"
| "num_of v = None"

definition is_number :: "pyval \<Rightarrow> bool" where
  "is_number v = (num_of v \<noteq> None)"

text \<open>Comparison of two \<open>str\<close> values: lexicographic on the code points.\<close>

fun str_lt :: "string \<Rightarrow> string \<Rightarrow> bool" where
  "str_lt [] [] = False"
| "str_lt [] (y # ys) = True"
| "str_lt (x # xs) [] = False"
| "str_lt (x # xs) (y # ys) =
     (if x = y then str_lt xs ys else (of_char x :: nat) < of_char y)"

text \<open>\<open>a + b\<close>, \<open>a - b\<close>, \<open>a < b\<close> and \<open>a <= b\<close>. Numbers combine with numbers (the
  result of arithmetic on \<open>bool\<close> is an \<open>int\<close>), \<open>str\<close> concatenates and compares with
  \<open>str\<close>; every other pairing raises \<open>TypeError\<close>.\<close>

fun py_add :: "pyval \<Rightarrow> pyval \<Rightarrow> exn + pyval" where
  "py_add (PStr s) (PStr t) = Inr (PStr (s @ t))"
| "py_add a b =
     (case (num_of a, num_of b) of
        (Some x, Some y) \<Rightarrow> Inr (PInt (x + y))
      | _ \<Rightarrow> Inl TypeError)"

definition py_sub :: "pyval \<Rightarrow> pyval \<Rightarrow> exn + pyval" where
  "py_sub a b =
     (case (num_of a, num_of b) of
        (Some x, Some y) \<Rightarrow> Inr (PInt (x - y))
      | _ \<Rightarrow> Inl TypeError)"

fun py_lt :: "pyval \<Rightarrow> pyval \<Rightarrow> exn + bool" where
  "py_lt (PStr s) (PStr t) = Inr (str_lt s t)"
| "py_lt a b =
     (case (num_of a, num_of b) of
        (Some x, Some y) \<Rightarrow> Inr (x < y)
      | _ \<Rightarrow> Inl TypeError)"

fun py_le :: "pyval \<Rightarrow> pyval \<Rightarrow> exn + bool" where
  "py_le (PStr s) (PStr t) = Inr (\<not> str_lt t s)"
| "py_le a b =
     (case (num_of a, num_of b) of
        (Some x, Some y) \<Rightarrow> Inr (x \<le> y)
      | _ \<Rightarrow> Inl TypeError)"

text \<open>\<open>str(v)\<close>, which is what an f-string field \<open>{v}\<close> inserts.\<close>

fun digits :: "nat \<Rightarrow> string" where
  "digits n =
     (if n < 10 then [''0123456789'' ! n]
      else digits (n div 10) @ [''0123456789'' ! (n mod 10)])"

definition str_int :: "int \<Rightarrow> string" where
  "str_int i = (if i < 0 then CHR ''-'' # digits (nat (- i)) else digits (nat i))"

fun py_str :: "pyval \<Rightarrow> string" where
  "py_str PNone = ''None''"
| "py_str (PBool b) = (if b then ''True'' else ''False'')"
| "py_str (PInt i) = str_int i"
| "py_str (PStr s) = s"

subsection \<open>Files and the state\<close>

text \<open>
  A file is represented by what \<open>json.load\<close> makes of its text: either the text is not
  a JSON document (\<open>Malformed\<close>), or it is one, and then it is an object with its members
  in the order of the text, or a scalar. \<open>json.dump\<close> writes an object with one member
  per dictionary entry, in the dictionary's order. Opening a path for writing is taken
  to succeed.
\<close>

datatype json = JObject "(string \<times> pyval) list" | JScalar pyval

datatype file_text = Malformed | Document json

record world =
  stock_data :: "(string \<times> pyval) list"
  out :: "string list"
  disk :: "(string \<times> file_text) list"

text \<open>The module is loaded with \<open>stock_data = {}\<close> and nothing printed yet.\<close>

definition initial :: "(string \<times> file_text) list \<Rightarrow> world" where
  "initial d = \<lparr>stock_data = [], out = [], disk = d\<rparr>"

text \<open>\<open>print(s)\<close> appends one line to standard output.\<close>

definition print :: "string \<Rightarrow> world \<Rightarrow> world" where
  "print s w = w\<lparr>out := out w @ [s]\<rparr>"

text \<open>\<open>d[k]\<close> and \<open>d.get(k, default)\<close> for a key of any type: a key that is not a
  \<open>str\<close> equals no stored key.\<close>

fun dict_lookup :: "(string \<times> pyval) list \<Rightarrow> pyval \<Rightarrow> pyval option" where
  "dict_lookup d (PStr k) = map_of d k"
| "dict_lookup d v = None"

definition dict_get :: "(string \<times> pyval) list \<Rightarrow> pyval \<Rightarrow> pyval \<Rightarrow> pyval" where
  "dict_get d k dflt = (case dict_lookup d k of None \<Rightarrow> dflt | Some v \<Rightarrow> v)"

subsection \<open>The operations\<close>

text \<open>
  \<open>add_item(item, qty, logs)\<close>. The result is the exception raised (if any), the caller's
  log list after the call (\<open>None\<close> when the caller passed none: the list created in its
  place is local), and the state. \<open>now\<close> is the text of \<open>datetime.now()\<close>.
\<close>

definition add_item ::
  "pyval \<Rightarrow> pyval \<Rightarrow> string list option \<Rightarrow> string \<Rightarrow> world
     \<Rightarrow> exn option \<times> string list option \<times> world" where
  "add_item item qty logs now w =
     (case item of
        PStr name \<Rightarrow>
          if \<not> is_number qty then (None, logs, w)
          else (case py_lt qty (PInt 0) of
              Inl e \<Rightarrow> (Some e, logs, w)
            | Inr True \<Rightarrow>
                (None, logs,
                 print (''Warning: Negative quantity for '' @ name @ '' ignored.'') w)
            | Inr False \<Rightarrow>
                (case py_add (dict_get (stock_data w) item (PInt 0)) qty of
                   Inl e \<Rightarrow> (Some e, logs, w)
                 | Inr v \<Rightarrow>
                     (None,
                      map_option
                        (\<lambda>l. l @ [now @ '': Added '' @ py_str qty @ '' of '' @ name]) logs,
                      w\<lparr>stock_data := AList.update name v (stock_data w)\<rparr>)))
      | _ \<Rightarrow> (None, logs, w))"

text \<open>
  \<open>remove_item(item, qty)\<close>: the body of the \<open>try\<close>, then the handler, which catches
  \<open>KeyError\<close> only.
\<close>

definition remove_body :: "pyval \<Rightarrow> pyval \<Rightarrow> world \<Rightarrow> exn option \<times> world" where
  "remove_body item qty w =
     (case item of
        PStr name \<Rightarrow>
          (case map_of (stock_data w) name of
             None \<Rightarrow> (Some KeyError, w)
           | Some old \<Rightarrow>
               (case py_sub old qty of
                  Inl e \<Rightarrow> (Some e, w)
                | Inr new \<Rightarrow>
                    let w' = w\<lparr>stock_data := AList.update name new (stock_data w)\<rparr> in
                    (case py_le new (PInt 0) of
                       Inl e \<Rightarrow> (Some e, w')
                     | Inr True \<Rightarrow>
                         (None, w'\<lparr>stock_data := AList.delete name (stock_data w')\<rparr>)
                     | Inr False \<Rightarrow> (None, w'))))
      | _ \<Rightarrow> (Some KeyError, w))"

definition remove_item :: "pyval \<Rightarrow> pyval \<Rightarrow> world \<Rightarrow> exn option \<times> world" where
  "remove_item item qty w =
     (case remove_body item qty w of
        (Some KeyError, w') \<Rightarrow>
          (None,
           print (''Warning: Tried to remove missing item '' @ [CHR 0x27] @ py_str item
                  @ [CHR 0x27]) w')
      | r \<Rightarrow> r)"

definition get_qty :: "pyval \<Rightarrow> world \<Rightarrow> pyval" where
  "get_qty item w = dict_get (stock_data w) item (PInt 0)"

text \<open>
  \<open>json.load\<close> builds a dictionary from an object's members (a repeated name keeps its
  first position and its last value); \<open>stock_data.update(data)\<close> then stores each entry.
  \<open>update\<close> of a value that is no dictionary iterates over it: the empty \<open>str\<close> yields
  nothing, a character of a non-empty \<open>str\<close> is no key-value pair (\<open>ValueError\<close>), and
  the other scalars are not iterable (\<open>TypeError\<close>).
\<close>

datatype pydata = DDict "(string \<times> pyval) list" | DScalar pyval

definition dict_update_all ::
  "(string \<times> pyval) list \<Rightarrow> (string \<times> pyval) list \<Rightarrow> (string \<times> pyval) list" where
  "dict_update_all d kvs = foldl (\<lambda>t (k, v). AList.update k v t) d kvs"

fun json_load :: "file_text \<Rightarrow> exn + pydata" where
  "json_load Malformed = Inl JSONDecodeError"
| "json_load (Document (JObject members)) = Inr (DDict (dict_update_all [] members))"
| "json_load (Document (JScalar v)) = Inr (DScalar v)"

fun dict_update :: "pydata \<Rightarrow> world \<Rightarrow> exn option \<times> world" where
  "dict_update (DDict kvs) w = (None, w\<lparr>stock_data := dict_update_all (stock_data w) kvs\<rparr>)"
| "dict_update (DScalar (PStr [])) w = (None, w)"
| "dict_update (DScalar (PStr (c # cs))) w = (Some ValueError, w)"
| "dict_update (DScalar v) w = (Some TypeError, w)"

text \<open>\<open>load_data(file)\<close>: a missing file raises \<open>FileNotFoundError\<close> in \<open>open\<close>, which the
  handler turns into clearing the dictionary; an exception of \<open>json.load\<close> or of
  \<open>update\<close> is not caught.\<close>

definition load_data :: "string \<Rightarrow> world \<Rightarrow> exn option \<times> world" where
  "load_data file w =
     (case map_of (disk w) file of
        None \<Rightarrow> (None, w\<lparr>stock_data := []\<rparr>)
      | Some txt \<Rightarrow>
          (case json_load txt of
             Inl e \<Rightarrow> (Some e, w)
           | Inr data \<Rightarrow> dict_update data (w\<lparr>stock_data := []\<rparr>)))"



text \<open>\<open>check_low_items(threshold)\<close>: the comprehension stops at the first comparison
  that raises.\<close>

fun low_items :: "(string \<times> pyval) list \<Rightarrow> pyval \<Rightarrow> exn + string list" where
  "low_items [] threshold = Inr []"
| "low_items ((item, qty) # rest) threshold =
     (case py_lt qty threshold of
        Inl e \<Rightarrow> Inl e
      | Inr b \<Rightarrow>
          (case low_items rest threshold of
             Inl e \<Rightarrow> Inl e
           | Inr names \<Rightarrow> Inr (if b then item # names else names)))"

definition check_low_items :: "pyval \<Rightarrow> world \<Rightarrow> exn + string list" where
  "check_low_items threshold w = low_items (stock_data w) threshold"

subsection \<open>Callers\<close>

text \<open>
  The first statements of \<open>main()\<close>: three additions and one removal, each with the
  time of its call. An exception would end \<open>main\<close> at that statement. The rest of
  \<open>main\<close> prints \<open>get_qty("apple")\<close> and \<open>check_low_items()\<close> (threshold 5) in this
  state, then saves, loads and prints the table.
\<close>

definition main_calls :: "string \<Rightarrow> string \<Rightarrow> string \<Rightarrow> world \<Rightarrow> exn option \<times> world" where
  "main_calls t1 t2 t3 w =
     (case add_item (PStr ''apple'') (PInt 10) None t1 w of
        (Some e, _, w1) \<Rightarrow> (Some e, w1)
      | (None, _, w1) \<Rightarrow>
     (case add_item (PStr ''banana'') (PInt 2) None t2 w1 of
        (Some e, _, w2) \<Rightarrow> (Some e, w2)
      | (None, _, w2) \<Rightarrow>
     (case add_item (PStr ''grapes'') (PInt 5) None t3 w2 of
        (Some e, _, w3) \<Rightarrow> (Some e, w3)
      | (None, _, w3) \<Rightarrow> remove_item (PStr ''orange'') (PInt 1) w3)))"


subsection \<open>Properties of a table\<close>

text \<open>Every stored quantity is a number, and every stored quantity is a number above
  zero.\<close>

definition numeric_stock :: "(string \<times> pyval) list \<Rightarrow> bool" where
  "numeric_stock d = list_all (\<lambda>(item, qty). is_number qty) d"


section \<open>Auxiliary facts\<close>

subsection \<open>Dictionaries as association lists\<close>



lemma dict_update_all_keys_distinct:
  "distinct (map fst d) \<Longrightarrow> distinct (map fst (dict_update_all d kvs))"
  unfolding dict_update_all_def
  by (induction kvs arbitrary: d) (auto simp: distinct_update)

subsection \<open>Operators on numbers\<close>

lemma py_lt_numbers:
  "num_of a = Some x \<Longrightarrow> num_of b = Some y \<Longrightarrow> py_lt a b = Inr (x < y)"
  by (cases a; cases b) auto

lemma py_le_numbers:
  "num_of a = Some x \<Longrightarrow> num_of b = Some y \<Longrightarrow> py_le a b = Inr (x \<le> y)"
  by (cases a; cases b) auto


subsection \<open>Listing and low stock\<close>


lemma low_items_numeric:
  "numeric_stock d \<Longrightarrow> num_of th = Some t \<Longrightarrow>
   low_items d th =
     Inr (map fst (filter (\<lambda>(item, qty). case num_of qty of Some x \<Rightarrow> x < t | None \<Rightarrow> False) d))"
proof (induction d)
  case Nil
  then show ?case by simp
next
  case (Cons p d)
  obtain k v where p: "p = (k, v)" by (cases p)
  from Cons.prems p obtain x where x: "num_of v = Some x"
    by (auto simp: numeric_stock_def is_number_def)
  from Cons.prems p have "numeric_stock d" by (simp add: numeric_stock_def)
  with Cons.IH Cons.prems have ih: "low_items d th =
     Inr (map fst (filter (\<lambda>(item, qty). case num_of qty of Some x \<Rightarrow> x < t | None \<Rightarrow> False) d))"
    by simp
  from x Cons.prems(2) have "py_lt v th = Inr (x < t)" by (rule py_lt_numbers)
  with ih p x show ?case by simp
qed


subsection \<open>Additions\<close>




subsection \<open>Quantities above zero\<close>







subsection \<open>No key occurs twice\<close>

text \<open>The association list stands for a dictionary, in which no key occurs twice. The
  module starts with such a list, and every operation that changes the table keeps it
  so (\<open>save_data\<close> and \<open>print_data\<close> do not touch the table).\<close>

lemma initial_distinct: "distinct (map fst (stock_data (initial d)))"
  by (simp add: initial_def)

lemma add_item_distinct:
  "distinct (map fst (stock_data w)) \<Longrightarrow>
   distinct (map fst (stock_data (snd (snd (add_item item qty logs now w)))))"
  by (auto simp: add_item_def print_def distinct_update
      split: pyval.splits sum.splits bool.splits)

lemma remove_item_distinct:
  "distinct (map fst (stock_data w)) \<Longrightarrow>
   distinct (map fst (stock_data (snd (remove_item item qty w))))"
  by (auto simp: remove_item_def remove_body_def print_def Let_def distinct_update distinct_delete
      split: pyval.splits sum.splits bool.splits option.splits exn.splits)

lemma load_data_distinct:
  "distinct (map fst (stock_data w)) \<Longrightarrow>
   distinct (map fst (stock_data (snd (load_data file w))))"
proof (cases "map_of (disk w) file")
  case None
  then show ?thesis by (simp add: load_data_def)
next
  case (Some body)
  assume d: "distinct (map fst (stock_data w))"
  show ?thesis
  proof (cases "json_load body")
    case (Inl e)
    with Some d show ?thesis by (simp add: load_data_def)
  next
    case (Inr data)
    have "distinct (map fst (stock_data (snd (dict_update data (w\<lparr>stock_data := []\<rparr>)))))"
      by (cases "(data, w\<lparr>stock_data := []\<rparr>)" rule: dict_update.cases)
         (auto simp: dict_update_all_keys_distinct)
    with Some Inr show ?thesis by (simp add: load_data_def)
  qed
qed

section \<open>Verified properties\<close>

subsection \<open>Rejected additions\<close>

text \<open>
  Claim C5. For a text item and a negative number as quantity, \<open>add_item\<close> prints the
  warning and changes nothing else: no exception, the caller's log list as it was, the
  table and the files untouched, and so \<open>get_qty\<close> of every item as before.
\<close>

theorem add_item_negative_ignored:
  "num_of qty = Some q \<Longrightarrow> q < 0 \<Longrightarrow>
   add_item (PStr name) qty logs now w =
     (None, logs,
      w\<lparr>out := out w @ [''Warning: Negative quantity for '' @ name @ '' ignored.'']\<rparr>)
   \<and> stock_data (snd (snd (add_item (PStr name) qty logs now w))) = stock_data w
   \<and> get_qty item (snd (snd (add_item (PStr name) qty logs now w))) = get_qty item w"
  by (cases qty) (auto simp: add_item_def is_number_def print_def get_qty_def split: if_splits)

theorem add_item_negative_ignored_witness:
  "num_of (PInt (-1)) = Some (-1) \<and> (-1::int) < 0 \<and>
   add_item (PStr ''x'') (PInt (-1)) (Some []) ''t'' (initial []) =
     (None, Some [],
      \<lparr>stock_data = [], out = [''Warning: Negative quantity for x ignored.''], disk = []\<rparr>)"
  using add_item_negative_ignored [of "PInt (-1)" "-1" "''x''" "Some []" "''t''" "initial []"]
  by (simp add: initial_def)

text \<open>
  Claim C6. When the item is not a \<open>str\<close> or the quantity does not pass
  \<open>isinstance(qty, (int, float))\<close>, \<open>add_item\<close> returns at once: no exception, nothing
  printed, no log entry, the state unchanged.
\<close>

theorem add_item_bad_type_noop:
  "\<not> is_str item \<or> \<not> is_number qty \<Longrightarrow> add_item item qty logs now w = (None, logs, w)"
  by (cases item) (auto simp: add_item_def)

theorem add_item_bad_type_noop_witness:
  "\<not> is_str (PInt 123) \<and>
   add_item (PInt 123) (PInt 5) (Some []) ''t'' (initial []) = (None, Some [], initial []) \<and>
   \<not> is_number (PStr ''5'') \<and>
   add_item (PStr ''x'') (PStr ''5'') (Some []) ''t'' (initial []) = (None, Some [], initial [])"
  using add_item_bad_type_noop [of "PInt 123" "PInt 5" "Some []" "''t''" "initial []"]
        add_item_bad_type_noop [of "PStr ''x''" "PStr ''5''" "Some []" "''t''" "initial []"]
  by (simp add: is_number_def)

subsection \<open>Removing a missing item\<close>

text \<open>
  Claim C7. When the item is not in the table, \<open>remove_item\<close> raises nothing, whatever
  the quantity argument is; it prints the warning and leaves the table and the files as
  they were.
\<close>

theorem remove_item_missing:
  "dict_lookup (stock_data w) item = None \<Longrightarrow>
   remove_item item qty w =
     (None,
      w\<lparr>out := out w @ [''Warning: Tried to remove missing item '' @ [CHR 0x27] @ py_str item
                         @ [CHR 0x27]]\<rparr>)"
  by (cases item) (auto simp: remove_item_def remove_body_def print_def)

theorem remove_item_missing_witness:
  "dict_lookup (stock_data (initial [])) (PStr ''missing'') = None \<and>
   remove_item (PStr ''missing'') (PInt 1) (initial []) =
     (None,
      \<lparr>stock_data = [],
       out = [''Warning: Tried to remove missing item '' @ [CHR 0x27] @ ''missing'' @ [CHR 0x27]],
       disk = []\<rparr>)"
  using remove_item_missing [of "initial []" "PStr ''missing''" "PInt 1"]
  by (simp add: initial_def)

subsection \<open>Loading\<close>

text \<open>
  Claim C8. Loading from a path at which there is no file raises nothing and leaves the
  table empty, whatever it held; output and files are unchanged.
\<close>

theorem load_data_missing_file:
  "map_of (disk w) file = None \<Longrightarrow> load_data file w = (None, w\<lparr>stock_data := []\<rparr>)"
  by (simp add: load_data_def)

theorem load_data_missing_file_witness:
  "map_of (disk \<lparr>stock_data = [(''a'', PInt 3)], out = [], disk = []\<rparr>) ''inventory.json'' = None \<and>
   load_data ''inventory.json'' \<lparr>stock_data = [(''a'', PInt 3)], out = [], disk = []\<rparr> =
     (None, \<lparr>stock_data = [], out = [], disk = []\<rparr>)"
  using load_data_missing_file
    [of "\<lparr>stock_data = [(''a'', PInt 3)], out = [], disk = []\<rparr>" "''inventory.json''"]
  by simp

text \<open>
  Claim C10. Loading a file whose text is not a JSON document raises the parser's
  exception and leaves the whole state, the table included, exactly as it was: the table
  is cleared only after \<open>json.load\<close> has returned.
\<close>

theorem load_data_malformed_atomic:
  "map_of (disk w) file = Some Malformed \<Longrightarrow> load_data file w = (Some JSONDecodeError, w)"
  by (simp add: load_data_def)

theorem load_data_malformed_atomic_witness:
  "map_of (disk \<lparr>stock_data = [(''a'', PInt 3)], out = [], disk = [(''f'', Malformed)]\<rparr>) ''f''
     = Some Malformed \<and>
   load_data ''f'' \<lparr>stock_data = [(''a'', PInt 3)], out = [], disk = [(''f'', Malformed)]\<rparr> =
     (Some JSONDecodeError,
      \<lparr>stock_data = [(''a'', PInt 3)], out = [], disk = [(''f'', Malformed)]\<rparr>)"
  using load_data_malformed_atomic
    [of "\<lparr>stock_data = [(''a'', PInt 3)], out = [], disk = [(''f'', Malformed)]\<rparr>" "''f''"]
  by simp

subsection \<open>Saving and loading\<close>



subsection \<open>Removing down to nothing\<close>



subsection \<open>Low stock\<close>

text \<open>
  Claim C9. When the stored quantities are numbers and the threshold is a number,
  \<open>check_low_items\<close> returns the items whose quantity is strictly below the threshold,
  in the order of the table; it takes the state and returns only this list, so the table
  is as before. After the first statements of \<open>main\<close> on the freshly loaded module
  (add apple 10, banana 2, grapes 5; remove orange 1) nothing has been raised, the
  quantity of apple is 10 and the low items for threshold 5 are banana alone.
\<close>

theorem check_low_items_result:
  "(numeric_stock (stock_data w) \<longrightarrow> num_of th = Some t \<longrightarrow>
      check_low_items th w =
        Inr (map fst (filter (\<lambda>(item, qty). case num_of qty of Some x \<Rightarrow> x < t | None \<Rightarrow> False)
                       (stock_data w))))
   \<and> fst (main_calls t1 t2 t3 (initial d)) = None
   \<and> stock_data (snd (main_calls t1 t2 t3 (initial d))) =
        [(''apple'', PInt 10), (''banana'', PInt 2), (''grapes'', PInt 5)]
   \<and> get_qty (PStr ''apple'') (snd (main_calls t1 t2 t3 (initial d))) = PInt 10
   \<and> check_low_items (PInt 5) (snd (main_calls t1 t2 t3 (initial d))) = Inr [''banana'']"
proof -
  have m: "main_calls t1 t2 t3 (initial d) =
     (None, \<lparr>stock_data = [(''apple'', PInt 10), (''banana'', PInt 2), (''grapes'', PInt 5)],
            out = [''Warning: Tried to remove missing item '' @ [CHR 0x27] @ ''orange'' @ [CHR 0x27]],
            disk = d\<rparr>)"
    by (simp add: main_calls_def add_item_def remove_item_def remove_body_def initial_def
        is_number_def dict_get_def print_def)
  show ?thesis
    by (simp add: m get_qty_def dict_get_def check_low_items_def low_items_numeric)
qed

theorem check_low_items_result_witness:
  "numeric_stock (stock_data \<lparr>stock_data = [(''a'', PInt 7), (''b'', PInt 1), (''c'', PBool True)],
                              out = [], disk = []\<rparr>)
   \<and> num_of (PInt 5) = Some 5
   \<and> check_low_items (PInt 5)
        \<lparr>stock_data = [(''a'', PInt 7), (''b'', PInt 1), (''c'', PBool True)], out = [], disk = []\<rparr>
       = Inr [''b'', ''c'']"
  using check_low_items_result
    [of "\<lparr>stock_data = [(''a'', PInt 7), (''b'', PInt 1), (''c'', PBool True)], out = [], disk = []\<rparr>"
        "PInt 5" 5]
  by (simp add: numeric_stock_def is_number_def)

subsection \<open>Adding accumulates\<close>



subsection \<open>Quantities above zero\<close>




end
